theory Spec2Isabelle
  imports Complex_Main
begin

section \<open>Display helpers of the analysis view (AnalysisDisplay.tsx)\<close>

text \<open>
  The two helpers are arrow functions on the TypeScript type \<open>number\<close>. Scores are
  modelled as reals, which leaves NaN out. \<open>normalizeValue\<close> can receive NaN and
  returns it; the metric list drops such an entry afterwards (the \<open>!isNaN\<close> filter runs
  on the helper's result). \<open>getColorScheme\<close> is called on values from which NaN has been
  removed: the entries that passed that filter, and the emotion confidence read as
  \<open>x || 0\<close>. The comparisons, \<open>Math.min\<close> and \<open>Math.max\<close> are exact on every other
  number.
  \<^verbatim>\<open>
  const getColorScheme = (score: number): string => {
    if (score >= 80) return 'green'
    if (score >= 60) return 'blue'
    if (score >= 40) return 'yellow'
    return 'red'
  }
  const normalizeValue = (value: number): number => {
    return Math.min(100, Math.max(0, value * 100))
  }
  \<close>
\<close>

definition getColorScheme :: "real \<Rightarrow> string" where
  "getColorScheme score =
     (if score \<ge> 80 then ''green''
      else if score \<ge> 60 then ''blue''
      else if score \<ge> 40 then ''yellow''
      else ''red'')"

definition normalizeValue :: "real \<Rightarrow> real" where
  "normalizeValue v = min 100 (max 0 (v * 100))"

section \<open>The recorder component (AudioRecorder)\<close>

text \<open>
  The component keeps its state in React hooks and refs; the model passes it explicitly.
  Kept is what decides which audio is sent for analysis: \<open>hasPermission\<close> (\<open>null\<close>
  until the probe at mount answers), \<open>isRecording\<close>, \<open>isProcessing\<close>,
  \<open>recordingTime\<close>, whether the one-second interval of \<open>timerRef\<close> is running,
  whether \<open>localStorage\<close> holds a token, \<open>uploadedBlob\<close> and \<open>isReadyToAnalyze\<close>.
  A blob is represented by its duration in whole seconds. \<open>captured\<close> is the audio the
  media recorder has collected in \<open>chunksRef\<close> since its \<open>start()\<close>; \<open>pending\<close> are
  the posts not yet answered, each with the code that waits for it; \<open>posted\<close> lists the
  blobs handed to \<open>api.post\<close>, oldest first.

  The handlers are those of the component in MetricInfoButton.tsx. The component in
  AudioRecorder.tsx has the same \<open>startRecording\<close>, \<open>stopRecording\<close>, \<open>onstop\<close> and
  \<open>sendAudioForAnalysis\<close>, no upload, and the literal 300 where this one has
  \<open>MAX_DURATION_SEC\<close>.

  The silence check of \<open>startRecording\<close> reads the audio level only, never the
  duration, and is left out: the traces below are of a speaker who keeps talking.
\<close>

definition MAX_DURATION_SEC :: nat where
  "MAX_DURATION_SEC = 900"

datatype continuation = AfterRecording | AfterUpload

record recorder =
  hasPermission :: "bool option"
  isRecording :: bool
  isProcessing :: bool
  recordingTime :: nat
  timerOn :: bool
  captured :: nat
  token :: bool
  uploadedBlob :: "nat option"
  isReadyToAnalyze :: bool
  pending :: "continuation list"
  posted :: "nat list"

datatype event =
  PermissionProbe bool
  | StartRecording bool
  | Second
  | StopRecording
  | FileSelected nat
  | AnalyzeUploaded
  | PostSettled nat

definition initial :: "bool \<Rightarrow> recorder" where
  "initial tok = \<lparr>hasPermission = None, isRecording = False, isProcessing = False,
     recordingTime = 0, timerOn = False, captured = 0, token = tok,
     uploadedBlob = None, isReadyToAnalyze = False, pending = [], posted = []\<rparr>"

text \<open>\<open>checkMicrophonePermission\<close>, run once at mount: the answer of \<open>getUserMedia\<close>.\<close>

definition checkMicrophonePermission :: "bool \<Rightarrow> recorder \<Rightarrow> recorder" where
  "checkMicrophonePermission granted s = s\<lparr>hasPermission := Some granted\<rparr>"

text \<open>
  What runs after \<open>await sendAudioForAnalysis(...)\<close>: the \<open>finally\<close> of \<open>onstop\<close>
  (\<open>setIsProcessing(false); setRecordingTime(0)\<close>) or that of \<open>analyzeUploadedAudio\<close>
  (\<open>setIsProcessing(false); setIsReadyToAnalyze(false); setUploadedBlob(null)\<close>).
\<close>

fun after_send :: "continuation \<Rightarrow> recorder \<Rightarrow> recorder" where
  "after_send AfterRecording s = s\<lparr>isProcessing := False, recordingTime := 0\<rparr>"
| "after_send AfterUpload s =
     s\<lparr>isProcessing := False, isReadyToAnalyze := False, uploadedBlob := None\<rparr>"

text \<open>
  \<open>sendAudioForAnalysis\<close> throws inside its own \<open>try\<close> when there is no token: the
  error ends in a toast, its \<open>finally\<close> clears \<open>isProcessing\<close>, and the caller goes on
  at once. Otherwise it posts the blob and the caller waits for the answer. It looks at
  nothing else: not at the blob's duration, not at \<open>recordingTime\<close>.
\<close>

definition sendAudioForAnalysis :: "nat \<Rightarrow> continuation \<Rightarrow> recorder \<Rightarrow> recorder" where
  "sendAudioForAnalysis audioBlob k s =
     (if \<not> token s then after_send k (s\<lparr>isProcessing := False\<rparr>)
      else s\<lparr>posted := posted s @ [audioBlob], pending := pending s @ [k]\<rparr>)"

text \<open>
  The post number \<open>i\<close> of the pending ones is answered or fails: the \<open>finally\<close> of
  \<open>sendAudioForAnalysis\<close> clears \<open>isProcessing\<close>, then the waiting caller goes on.
\<close>

definition postSettled :: "nat \<Rightarrow> recorder \<Rightarrow> recorder" where
  "postSettled i s =
     (if i < length (pending s)
      then after_send (pending s ! i)
             (s\<lparr>isProcessing := False,
                pending := take i (pending s) @ drop (Suc i) (pending s)\<rparr>)
      else s)"

text \<open>
  \<open>startRecording\<close>: when \<open>getUserMedia\<close> is refused the handler only shows a toast
  (\<open>granted = False\<close>); otherwise it creates and starts the media recorder with empty
  \<open>chunksRef\<close>, sets \<open>isRecording\<close>, resets \<open>recordingTime\<close> and starts the
  one-second interval.
\<close>

definition startRecording :: "bool \<Rightarrow> recorder \<Rightarrow> recorder" where
  "startRecording granted s =
     (if \<not> granted then s
      else s\<lparr>isRecording := True, recordingTime := 0, timerOn := True, captured := 0\<rparr>)"

text \<open>
  One second passes. The interval and the media recorder are started together and
  stopped together, so while the interval runs its callback
  \<open>setRecordingTime(prev => prev + 1)\<close> fires and the media recorder has collected one
  more second of audio. Nothing here compares \<open>recordingTime\<close> with a maximum.
\<close>

definition timerTick :: "recorder \<Rightarrow> recorder" where
  "timerTick s =
     (if timerOn s
      then s\<lparr>recordingTime := recordingTime s + 1, captured := captured s + 1\<rparr>
      else s)"

text \<open>
  \<open>mediaRecorder.onstop\<close> sets \<open>isProcessing\<close>, builds the blob from the chunks and
  sends it for analysis. \<open>stopRecording\<close> does nothing unless \<open>isRecording\<close>; then it
  clears the interval, stops the media recorder (which fires \<open>onstop\<close>) and clears
  \<open>isRecording\<close>.
\<close>

definition onstop :: "recorder \<Rightarrow> recorder" where
  "onstop s = sendAudioForAnalysis (captured s) AfterRecording (s\<lparr>isProcessing := True\<rparr>)"

definition stopRecording :: "recorder \<Rightarrow> recorder" where
  "stopRecording s =
     (if isRecording s then (onstop (s\<lparr>timerOn := False\<rparr>))\<lparr>isRecording := False\<rparr>
      else s)"

definition handleFileSelected :: "nat \<Rightarrow> recorder \<Rightarrow> recorder" where
  "handleFileSelected file s =
     s\<lparr>isProcessing := False, uploadedBlob := Some file, isReadyToAnalyze := True\<rparr>"

definition analyzeUploadedAudio :: "recorder \<Rightarrow> recorder" where
  "analyzeUploadedAudio s =
     (case uploadedBlob s of
        None \<Rightarrow> s
      | Some blob \<Rightarrow> sendAudioForAnalysis blob AfterUpload (s\<lparr>isProcessing := True\<rparr>))"

text \<open>
  What the rendered component offers. With \<open>hasPermission === false\<close> it renders the
  error box only. Otherwise: the stop button while recording; the start button and the
  upload button while not recording, the upload button disabled while processing
  (\<open>isLoading\<close>); the analyze button when \<open>isReadyToAnalyze\<close>, disabled while
  processing.
\<close>

definition offered :: "recorder \<Rightarrow> bool" where
  "offered s = (hasPermission s \<noteq> Some False)"

fun step :: "recorder \<Rightarrow> event \<Rightarrow> recorder" where
  "step s (PermissionProbe granted) = checkMicrophonePermission granted s"
| "step s (StartRecording granted) =
     (if offered s \<and> \<not> isRecording s then startRecording granted s else s)"
| "step s Second = timerTick s"
| "step s StopRecording = (if offered s \<and> isRecording s then stopRecording s else s)"
| "step s (FileSelected file) =
     (if offered s \<and> \<not> isRecording s \<and> \<not> isProcessing s
      then handleFileSelected file s else s)"
| "step s AnalyzeUploaded =
     (if offered s \<and> isReadyToAnalyze s \<and> \<not> isProcessing s
      then analyzeUploadedAudio s else s)"
| "step s (PostSettled i) = postSettled i s"

fun run :: "recorder \<Rightarrow> event list \<Rightarrow> recorder" where
  "run s [] = s"
| "run s (e # es) = run (step s e) es"

text \<open>
  The only use of the maximum, next to the label \<open>Max: 15:00\<close>:
  \<open>value={(recordingTime / MAX_DURATION_SEC) * 100}\<close>. In AudioRecorder.tsx the bar is
  \<open>value={(recordingTime / 300) * 100}\<close> next to \<open>Max: 5:00\<close>.
\<close>

definition progress :: "recorder \<Rightarrow> real" where
  "progress s = (real (recordingTime s) / real MAX_DURATION_SEC) * 100"

definition progress_300 :: "recorder \<Rightarrow> real" where
  "progress_300 s = (real (recordingTime s) / 300) * 100"

section \<open>The AI-voice detector\<close>

text \<open>
  The detector is \<open>backend/enhanced_analyzer.py\<close>. README.md (Configuration) quotes
  its two threshold statements, which are translated here as functions of
  \<open>final_confidence\<close>:
  \<^verbatim>\<open>
  is_ai_generated = final_confidence > 0.65

  if final_confidence > 0.80:
      risk_level = "high"
  elif final_confidence > 0.65:
      risk_level = "medium"
  else:
      risk_level = "low"
  \<close>
\<close>

definition is_ai_generated :: "real \<Rightarrow> bool" where
  "is_ai_generated final_confidence = (final_confidence > 0.65)"

definition risk_level :: "real \<Rightarrow> string" where
  "risk_level final_confidence =
     (if final_confidence > 0.80 then ''high''
      else if final_confidence > 0.65 then ''medium''
      else ''low'')"

text \<open>
  Modelled from the spec: the detection result of section 3 (three sub-scores, their
  weights, the combined confidence, the classification and the risk tier). Missing: the
  part of \<open>backend/enhanced_analyzer.py\<close> that computes the sub-scores and builds the
  result.
\<close>

record detection_result =
  heuristic_score :: real
  pattern_score :: real
  temporal_score :: real
  heuristic_weight :: real
  pattern_weight :: real
  temporal_weight :: real
  confidence :: real
  ai_generated :: bool
  risk_tier :: string

text \<open>
  Modelled from the spec: the fixed weights 0.50, 0.30, 0.20 of section 4.3 (README.md
  gives the same three), and the fallback of its edge case: when the temporal term is
  skipped its weight becomes 0 and the 0.20 goes to the other two in proportion to their
  own weights. Missing: the weighting code of the detector.
\<close>

definition ensemble_weights :: "bool \<Rightarrow> real \<times> real \<times> real" where
  "ensemble_weights temporal_skipped =
     (if temporal_skipped
      then (0.50 + 0.20 * (0.50 / (0.50 + 0.30)), 0.30 + 0.20 * (0.30 / (0.50 + 0.30)), 0)
      else (0.50, 0.30, 0.20))"

text \<open>
  Modelled from the spec: the recording is split into segments of a fixed length
  (section 4.3); only full segments count. Missing: the segmentation of the detector.
\<close>

definition segment_count :: "nat \<Rightarrow> nat \<Rightarrow> nat" where
  "segment_count duration_ms segment_ms = duration_ms div segment_ms"

text \<open>
  Modelled from the spec: with fewer than two full segments the temporal term is skipped
  (section 4.3, edge case); otherwise it is the temporal-consistency score \<open>t\<close>.
  Missing: the temporal analysis of the detector.
\<close>

definition temporal_term :: "nat \<Rightarrow> real \<Rightarrow> real option" where
  "temporal_term n_segments t = (if n_segments < 2 then None else Some t)"

text \<open>
  Modelled from the spec: clamping to [0,1] (section 3). Missing: the detector's own
  clamp.
\<close>

definition clamp01 :: "real \<Rightarrow> real" where
  "clamp01 x = max 0 (min 1 x)"

text \<open>
  Modelled from the spec: the combined confidence is the weighted sum of the sub-scores,
  clamped to [0,1] (section 3). The three sub-score functions are left open by the spec
  (section 9) and enter as their values \<open>h\<close>, \<open>p\<close> and, unless skipped, \<open>t\<close>; a
  skipped temporal score is recorded as 0. The classification and the risk tier are the
  two threshold statements above. Missing: the detector function that assembles the
  result.
\<close>

definition combine :: "real \<Rightarrow> real \<Rightarrow> real option \<Rightarrow> detection_result" where
  "combine h p topt =
     (let (wh, wp, wt) = ensemble_weights (topt = None);
          t = (case topt of None \<Rightarrow> 0 | Some t \<Rightarrow> t);
          c = clamp01 (wh * h + wp * p + wt * t)
      in \<lparr>heuristic_score = h, pattern_score = p, temporal_score = t,
          heuristic_weight = wh, pattern_weight = wp, temporal_weight = wt,
          confidence = c, ai_generated = is_ai_generated c, risk_tier = risk_level c\<rparr>)"

text \<open>
  Modelled from the spec: detection on a recording of \<open>duration_ms\<close> milliseconds with
  segments of \<open>segment_ms\<close> milliseconds. Missing: the detector's entry point.
\<close>

definition detect :: "nat \<Rightarrow> nat \<Rightarrow> real \<Rightarrow> real \<Rightarrow> real \<Rightarrow> detection_result" where
  "detect duration_ms segment_ms h p t =
     combine h p (temporal_term (segment_count duration_ms segment_ms) t)"

section \<open>Properties of the display helpers\<close>

text \<open>
  C9. For every real number \<open>v\<close>, \<open>normalizeValue v\<close> is \<open>min(100, max(0, 100 v))\<close>; its
  result lies between 0 and 100, a score below 0 is shown as 0 and a score above 1 as 100.
\<close>

theorem normalizeValue_clamps:
  "normalizeValue v = min 100 (max 0 (100 * v))
   \<and> 0 \<le> normalizeValue v \<and> normalizeValue v \<le> 100
   \<and> normalizeValue v = (if v < 0 then 0 else if 1 < v then 100 else 100 * v)"
  by (simp add: normalizeValue_def min_def max_def)

text \<open>
  C10. \<open>getColorScheme\<close> gives every score one of the four colours, and each colour
  exactly on its band: green from 80, blue on [60, 80), yellow on [40, 60), red below 40.
\<close>

theorem getColorScheme_bands:
  "getColorScheme s \<in> {''green'', ''blue'', ''yellow'', ''red''}
   \<and> (getColorScheme s = ''green'' \<longleftrightarrow> s \<ge> 80)
   \<and> (getColorScheme s = ''blue'' \<longleftrightarrow> 60 \<le> s \<and> s < 80)
   \<and> (getColorScheme s = ''yellow'' \<longleftrightarrow> 40 \<le> s \<and> s < 60)
   \<and> (getColorScheme s = ''red'' \<longleftrightarrow> s < 40)"
  by (simp add: getColorScheme_def)

section \<open>Properties of the classification thresholds\<close>


section \<open>Properties of the ensemble\<close>

lemma clamp01_range: "0 \<le> clamp01 x \<and> clamp01 x \<le> 1"
  by (simp add: clamp01_def)

lemma clamp01_id: "0 \<le> x \<Longrightarrow> x \<le> 1 \<Longrightarrow> clamp01 x = x"
  by (simp add: clamp01_def)

lemma combine_fields:
  "heuristic_weight (combine h p topt) = fst (ensemble_weights (topt = None))"
  "pattern_weight (combine h p topt) = fst (snd (ensemble_weights (topt = None)))"
  "temporal_weight (combine h p topt) = snd (snd (ensemble_weights (topt = None)))"
  "heuristic_score (combine h p topt) = h"
  "pattern_score (combine h p topt) = p"
  "temporal_score (combine h p topt) = (case topt of None \<Rightarrow> 0 | Some t \<Rightarrow> t)"
  "confidence (combine h p topt) =
     clamp01 (fst (ensemble_weights (topt = None)) * h
            + fst (snd (ensemble_weights (topt = None))) * p
            + snd (snd (ensemble_weights (topt = None)))
                * (case topt of None \<Rightarrow> 0 | Some t \<Rightarrow> t))"
  by (simp_all add: combine_def Let_def split: prod.splits)

lemma weighted_sum_range:
  fixes h p t :: real
  assumes "0 \<le> h" "h \<le> 1" "0 \<le> p" "p \<le> 1" "0 \<le> t" "t \<le> 1"
  shows "0 \<le> 5 / 8 * h + 3 / 8 * p" "5 / 8 * h + 3 / 8 * p \<le> 1"
    "0 \<le> h / 2 + 3 * p / 10 + t / 5" "h / 2 + 3 * p / 10 + t / 5 \<le> 1"
  using assms by simp_all

text \<open>
  C1. The combined confidence lies in [0,1] and is the weighted sum of the three
  sub-scores under the result's own weights, clamped to [0,1]. For sub-scores in [0,1]
  the clamp changes nothing: the confidence is 0.50 h + 0.30 p + 0.20 t, and with the
  temporal term skipped it is the sum of h and p under the redistributed weights.
\<close>

theorem detection_confidence:
  "0 \<le> confidence (detect d seg h p t) \<and> confidence (detect d seg h p t) \<le> 1
   \<and> confidence (detect d seg h p t)
       = clamp01 (heuristic_weight (detect d seg h p t) * heuristic_score (detect d seg h p t)
                + pattern_weight (detect d seg h p t) * pattern_score (detect d seg h p t)
                + temporal_weight (detect d seg h p t) * temporal_score (detect d seg h p t))
   \<and> (0 \<le> h \<and> h \<le> 1 \<and> 0 \<le> p \<and> p \<le> 1 \<and> 0 \<le> t \<and> t \<le> 1 \<longrightarrow>
        confidence (detect d seg h p t)
          = (if segment_count d seg < 2
             then (0.50 + 0.20 * (0.50 / (0.50 + 0.30))) * h
                + (0.30 + 0.20 * (0.30 / (0.50 + 0.30))) * p
             else 0.50 * h + 0.30 * p + 0.20 * t))"
proof -
  let ?r = "detect d seg h p t"
  have range: "0 \<le> confidence ?r \<and> confidence ?r \<le> 1"
    by (simp add: detect_def combine_fields clamp01_range)
  have sum: "confidence ?r
       = clamp01 (heuristic_weight ?r * heuristic_score ?r
                + pattern_weight ?r * pattern_score ?r
                + temporal_weight ?r * temporal_score ?r)"
    by (simp add: detect_def combine_fields)
  have exact: "confidence ?r
          = (if segment_count d seg < 2
             then (0.50 + 0.20 * (0.50 / (0.50 + 0.30))) * h
                + (0.30 + 0.20 * (0.30 / (0.50 + 0.30))) * p
             else 0.50 * h + 0.30 * p + 0.20 * t)"
    if sub: "0 \<le> h" "h \<le> 1" "0 \<le> p" "p \<le> 1" "0 \<le> t" "t \<le> 1"
  proof (cases "segment_count d seg < 2")
    case True
    with weighted_sum_range(1,2) [OF sub] show ?thesis
      by (simp add: detect_def temporal_term_def combine_fields ensemble_weights_def
          clamp01_id)
  next
    case False
    with weighted_sum_range(3,4) [OF sub] show ?thesis
      by (simp add: detect_def temporal_term_def combine_fields ensemble_weights_def
          clamp01_id)
  qed
  from range sum exact show ?thesis by blast
qed

theorem detection_confidence_witness:
  "confidence (detect 10000 2000 (9 / 10) (8 / 10) (7 / 10)) = 83 / 100
   \<and> confidence (detect 3000 2000 (9 / 10) (8 / 10) (7 / 10)) = 69 / 80"
  using detection_confidence [of 10000 2000 "9 / 10" "8 / 10" "7 / 10"]
        detection_confidence [of 3000 2000 "9 / 10" "8 / 10" "7 / 10"]
  by (simp add: segment_count_def)

text \<open>
  C3. The three weights of every detection result sum to 1: they are 0.50, 0.30, 0.20,
  or, with fewer than two full segments, the temporal weight is 0 and its 0.20 is shared
  between the other two in proportion to their weights. A 3-second recording cut into
  2-second segments has temporal weight 0 and the other two weights sum to 1.
\<close>

theorem ensemble_weights_sum:
  "heuristic_weight (detect d seg h p t) + pattern_weight (detect d seg h p t)
     + temporal_weight (detect d seg h p t) = 1
   \<and> (heuristic_weight (detect d seg h p t), pattern_weight (detect d seg h p t),
       temporal_weight (detect d seg h p t))
      = (if segment_count d seg < 2
         then (0.50 + 0.20 * (0.50 / (0.50 + 0.30)), 0.30 + 0.20 * (0.30 / (0.50 + 0.30)), 0)
         else (0.50, 0.30, 0.20))
   \<and> temporal_weight (detect 3000 2000 h p t) = 0
   \<and> heuristic_weight (detect 3000 2000 h p t) + pattern_weight (detect 3000 2000 h p t) = 1"
  by (simp add: detect_def temporal_term_def combine_fields ensemble_weights_def
      segment_count_def)

section \<open>Properties of the recorder\<close>

lemma run_append: "run s (xs @ ys) = run (run s xs) ys"
  by (induction xs arbitrary: s) simp_all

lemma run_seconds:
  "timerOn s \<Longrightarrow>
   run s (replicate n Second)
     = s\<lparr>recordingTime := recordingTime s + n, captured := captured s + n\<rparr>"
  by (induction n arbitrary: s) (simp_all add: timerTick_def)

text \<open>
  No duration stops the recorder: with the microphone granted and a token present, a
  recording stopped after \<open>n\<close> seconds is posted whole, whatever \<open>n\<close> is.
\<close>

lemma recording_posted_whole:
  "posted (run (initial True)
             ([PermissionProbe True, StartRecording True] @ replicate n Second
                @ [StopRecording])) = [n]"
  by (simp add: run_append run_seconds initial_def checkMicrophonePermission_def offered_def
      startRecording_def stopRecording_def onstop_def sendAudioForAnalysis_def)

text \<open>
  C8. The recorder announces a maximum (\<open>MAX_DURATION_SEC = 900\<close>, "Max: 15:00") and
  does not enforce it. With the microphone granted and a token present, a recording of
  901 seconds: after the 901st second the component is still recording, its counter is
  at 901 and its progress bar beyond 100; at stop the 901-second recording is posted for
  analysis. The component of AudioRecorder.tsx ("Max: 5:00") does the same after 301
  seconds.
\<close>

theorem recorder_exceeds_max:
  "isRecording (run (initial True)
       ([PermissionProbe True, StartRecording True] @ replicate 901 Second))
   \<and> recordingTime (run (initial True)
       ([PermissionProbe True, StartRecording True] @ replicate 901 Second)) = 901
   \<and> 100 < progress (run (initial True)
       ([PermissionProbe True, StartRecording True] @ replicate 901 Second))
   \<and> posted (run (initial True)
       ([PermissionProbe True, StartRecording True] @ replicate 901 Second
          @ [StopRecording])) = [901]
   \<and> MAX_DURATION_SEC < 901
   \<and> 100 < progress_300 (run (initial True)
       ([PermissionProbe True, StartRecording True] @ replicate 301 Second))
   \<and> posted (run (initial True)
       ([PermissionProbe True, StartRecording True] @ replicate 301 Second
          @ [StopRecording])) = [301]"
  by (simp add: run_append run_seconds initial_def checkMicrophonePermission_def offered_def
      startRecording_def stopRecording_def onstop_def sendAudioForAnalysis_def
      progress_def progress_300_def MAX_DURATION_SEC_def)

end
